theory Spec2Isabelle
  imports Complex_Main "HOL-Library.Word" "HOL-Library.Log_Nat" "HOL-Library.Signed_Division"
begin

section \<open>Error values\<close>

text \<open>
  Go errors are values. The update package builds them with \<open>errors.New\<close>,
  \<open>fmt.Errorf\<close> (kept here as the format string with its arguments, unrendered) and
  \<open>errors.Wrap\<close> of \<open>github.com/pkg/errors\<close> (a cause and a message);
  \<open>strconv\<close> reports a \<open>NumError\<close> (function, input, cause).
\<close>

datatype error =
    New string
  | Errorf string "fmt_arg list"
  | Wrap error string
  | NumError string string error
and fmt_arg =
    Str string
  | Err error

definition ErrSyntax :: error where
  "ErrSyntax = New ''invalid syntax''"

definition ErrRange :: error where
  "ErrRange = New ''value out of range''"

section \<open>Library functions used by the update package\<close>

text \<open>
  The functions of this section belong to the Go standard library and to the packages
  the update package imports, not to the repository. Each is written after the
  behaviour of the library function it is named for, restricted to the arguments the
  update package passes.
\<close>

subsection \<open>Package strings\<close>

text \<open>
  \<open>strings.Replace(s, old, new, n)\<close> for a one-byte \<open>old\<close> and a one-byte \<open>new\<close>
  and \<open>n \<ge> 0\<close>: the first \<open>n\<close> occurrences of \<open>old\<close>, from the left, become
  \<open>new\<close>; the rest of \<open>s\<close> is copied.
\<close>

fun strings_Replace :: "string \<Rightarrow> char \<Rightarrow> char \<Rightarrow> nat \<Rightarrow> string" where
  "strings_Replace [] old new n = []"
| "strings_Replace (c # cs) old new 0 = c # cs"
| "strings_Replace (c # cs) old new (Suc n) =
     (if c = old then new # strings_Replace cs old new n
      else c # strings_Replace cs old new (Suc n))"

text \<open>
  \<open>cut sep s\<close> finds the first \<open>sep\<close> in \<open>s\<close> (\<open>strings.IndexRune\<close> for an ASCII
  separator) and returns the text before it and the text after it.
\<close>

fun cut :: "char \<Rightarrow> string \<Rightarrow> (string \<times> string) option" where
  "cut sep [] = None"
| "cut sep (c # cs) =
     (if c = sep then Some ([], cs)
      else (case cut sep cs of None \<Rightarrow> None | Some (a, b) \<Rightarrow> Some (c # a, b)))"

text \<open>\<open>strings.SplitN(s, sep, n)\<close> for a one-byte separator and \<open>n \<ge> 0\<close>.\<close>

fun strings_SplitN :: "string \<Rightarrow> char \<Rightarrow> nat \<Rightarrow> string list" where
  "strings_SplitN s sep 0 = []"
| "strings_SplitN s sep (Suc 0) = [s]"
| "strings_SplitN s sep (Suc (Suc n)) =
     (case cut sep s of
        None \<Rightarrow> [s]
      | Some (a, b) \<Rightarrow> a # strings_SplitN b sep (Suc n))"

text \<open>\<open>strings.Split(s, sep)\<close> for a one-byte separator.\<close>

fun strings_Split :: "string \<Rightarrow> char \<Rightarrow> string list" where
  "strings_Split [] sep = [[]]"
| "strings_Split (c # cs) sep =
     (if c = sep then [] # strings_Split cs sep
      else (case strings_Split cs sep of
              [] \<Rightarrow> [[c]]
            | p # ps \<Rightarrow> (c # p) # ps))"

text \<open>\<open>strings.Join(elems, sep)\<close>.\<close>

fun strings_Join :: "string list \<Rightarrow> string \<Rightarrow> string" where
  "strings_Join [] sep = []"
| "strings_Join [x] sep = x"
| "strings_Join (x # y # ys) sep = x @ sep @ strings_Join (y # ys) sep"

subsection \<open>Package strconv\<close>

definition numbers :: string where
  "numbers = ''0123456789''"

definition alphas :: string where
  "alphas = ''abcdefghijklmnopqrstuvwxyzABCDEFGHIJKLMNOPQRSTUVWXYZ-''"

definition alphanum :: string where
  "alphanum = alphas @ numbers"

definition digit_val :: "char \<Rightarrow> nat" where
  "digit_val c = of_char c - 48"

definition digit_chr :: "nat \<Rightarrow> char" where
  "digit_chr d = ''0123456789'' ! d"

text \<open>
  \<open>strconv.ParseUint(s, 10, 64)\<close>: a non-empty string of decimal digits whose value
  fits 64 bits; anything else is a \<open>NumError\<close>.
\<close>

definition strconv_ParseUint :: "string \<Rightarrow> error + 64 word" where
  "strconv_ParseUint s =
     (if s = [] \<or> \<not> list_all (\<lambda>c. c \<in> set numbers) s
      then Inl (NumError ''ParseUint'' s ErrSyntax)
      else (let n = foldl (\<lambda>a c. 10 * a + digit_val c) 0 s
            in if n < 2 ^ 64 then Inr (of_nat n)
               else Inl (NumError ''ParseUint'' s ErrRange)))"

text \<open>\<open>strconv.AppendUint(b, n, 10)\<close>: the decimal digits of \<open>n\<close>.\<close>

function decimal :: "nat \<Rightarrow> string" where
  "decimal n = (if n < 10 then [digit_chr n] else decimal (n div 10) @ [digit_chr (n mod 10)])"
  by pat_completeness auto
termination
  by (relation "measure (\<lambda>n. n)") auto

declare decimal.simps [simp del]

subsection \<open>Floating point\<close>

text \<open>
  A \<open>float64\<close> is modelled by the rational number it denotes; infinities, NaN and
  the sign of zero do not occur in the expressions below. Each operation is the exact
  operation followed by \<open>f64\<close>, rounding to nearest with ties to even at 53 bits of
  precision. The exponent range is not bounded: the values rounded here are zero or
  lie between 2 to the power -42 and 2 to the power 63 in magnitude, far from overflow
  and underflow.
  \<open>rne\<close> rounds to the nearest integer, a tie to the even one; \<open>ilog2 x\<close> is the
  binary exponent of a positive \<open>x\<close>.
\<close>

definition rne :: "rat \<Rightarrow> int" where
  "rne x =
     (let f = \<lfloor>x\<rfloor>; r = x - of_int f
      in if r < 1 / 2 then f
         else if r > 1 / 2 then f + 1
         else if even f then f else f + 1)"

definition ilog2 :: "rat \<Rightarrow> int" where
  "ilog2 x =
     (case quotient_of x of
        (a, b) \<Rightarrow>
          (let k = bitlen a - bitlen b
           in if 2 powi k \<le> x then k else k - 1))"

definition f64 :: "rat \<Rightarrow> rat" where
  "f64 x =
     (if x = 0 then 0
      else (let q = 2 powi (ilog2 \<bar>x\<bar> - 52)
            in sgn x * of_int (rne (\<bar>x\<bar> / q)) * q))"

subsection \<open>Package time\<close>

text \<open>
  An instant is a count of nanoseconds since the Unix epoch. A \<open>Duration\<close> is an \<open>int64\<close> count of nanoseconds. \<open>Time.Sub\<close> saturates at
  the least and greatest duration; \<open>time.Since(t)\<close> is \<open>time.Now().Sub(t)\<close>, the
  clock reading \<open>now\<close> being an argument here. \<open>Duration.Hours\<close> splits the
  duration with Go's truncating \<open>/\<close> and \<open>%\<close> and adds the two parts as
  \<open>float64\<close>.
\<close>

type_synonym Time = int

type_synonym Duration = int

definition Hour :: Duration where
  "Hour = 60 * (60 * (1000 * (1000 * (1000 * 1))))"

definition minDuration :: Duration where
  "minDuration = - (2 ^ 63)"

definition maxDuration :: Duration where
  "maxDuration = 2 ^ 63 - 1"

definition time_Sub :: "Time \<Rightarrow> Time \<Rightarrow> Duration" where
  "time_Sub t u =
     (let d = t - u
      in if d < minDuration then minDuration
         else if maxDuration < d then maxDuration
         else d)"

definition time_Since :: "Time \<Rightarrow> Time \<Rightarrow> Duration" where
  "time_Since now t = time_Sub now t"

definition Duration_Hours :: "Duration \<Rightarrow> rat" where
  "Duration_Hours d =
     (let hour = d sdiv Hour;
          nsec = d smod Hour
      in f64 (f64 (of_int hour) + f64 (f64 (of_int nsec) / f64 (60 * 60 * 1000000000))))"

subsection \<open>Package semver (github.com/blang/semver)\<close>

text \<open>
  The version type of the library (its version 3) and the three operations the update
  package calls:
  \<open>Parse\<close>, \<open>String\<close> and \<open>Equals\<close> (which is \<open>Compare = 0\<close>). A pre-release
  identifier is numeric or alphanumeric; build metadata is kept but never compared.
\<close>

record PRVersion =
  VersionStr :: string
  VersionNum :: "64 word"
  IsNum :: bool

record Version =
  Major :: "64 word"
  Minor :: "64 word"
  Patch :: "64 word"
  Pre :: "PRVersion list"
  Build :: "string list"

text \<open>The zero value \<open>semver.Version{}\<close>.\<close>

definition Version_zero :: Version where
  "Version_zero = \<lparr>Major = 0, Minor = 0, Patch = 0, Pre = [], Build = []\<rparr>"

definition containsOnly :: "string \<Rightarrow> string \<Rightarrow> bool" where
  "containsOnly s cmp = list_all (\<lambda>c. c \<in> set cmp) s"

definition hasLeadingZeroes :: "string \<Rightarrow> bool" where
  "hasLeadingZeroes s = (length s > 1 \<and> s ! 0 = CHR ''0'')"

definition NewPRVersion :: "string \<Rightarrow> error + PRVersion" where
  "NewPRVersion s =
     (if length s = 0 then Inl (New ''Prerelease is empty'')
      else if containsOnly s numbers then
        (if hasLeadingZeroes s
         then Inl (Errorf ''Numeric PreRelease version must not contain leading zeroes %q'' [Str s])
         else (case strconv_ParseUint s of
                 Inl e \<Rightarrow> Inl e
               | Inr num \<Rightarrow> Inr \<lparr>VersionStr = [], VersionNum = num, IsNum = True\<rparr>))
      else if containsOnly s alphanum then
        Inr \<lparr>VersionStr = s, VersionNum = 0, IsNum = False\<rparr>
      else Inl (Errorf ''Invalid character(s) found in prerelease %q'' [Str s]))"

text \<open>The loop over the pre-release identifiers: the first failure is returned.\<close>

fun parsePre :: "string list \<Rightarrow> error + PRVersion list" where
  "parsePre [] = Inr []"
| "parsePre (p # ps) =
     (case NewPRVersion p of
        Inl e \<Rightarrow> Inl e
      | Inr v \<Rightarrow> (case parsePre ps of Inl e \<Rightarrow> Inl e | Inr vs \<Rightarrow> Inr (v # vs)))"

text \<open>The loop over the build identifiers.\<close>

fun parseBuild :: "string list \<Rightarrow> error + string list" where
  "parseBuild [] = Inr []"
| "parseBuild (b # bs) =
     (if length b = 0 then Inl (New ''Build meta data is empty'')
      else if \<not> containsOnly b alphanum
      then Inl (Errorf ''Invalid character(s) found in build meta data %q'' [Str b])
      else (case parseBuild bs of Inl e \<Rightarrow> Inl e | Inr vs \<Rightarrow> Inr (b # vs)))"

text \<open>
  The three checks \<open>Parse\<close> makes on each numeric component (major, minor and
  patch): digits only, no leading zero, a value that fits 64 bits. The two names go
  into the messages.
\<close>

definition parseNumber :: "string \<Rightarrow> string \<Rightarrow> string \<Rightarrow> error + 64 word" where
  "parseNumber lower upper p =
     (if \<not> containsOnly p numbers
      then Inl (Errorf (''Invalid character(s) found in '' @ lower @ '' number %q'') [Str p])
      else if hasLeadingZeroes p
      then Inl (Errorf (upper @ '' number must not contain leading zeroes %q'') [Str p])
      else strconv_ParseUint p)"

definition semver_Parse :: "string \<Rightarrow> error + Version" where
  "semver_Parse s =
     (if length s = 0 then Inl (New ''Version string empty'')
      else (case strings_SplitN s (CHR ''.'') 3 of
        [p0, p1, p2] \<Rightarrow>
          (case parseNumber ''major'' ''Major'' p0 of
             Inl e \<Rightarrow> Inl e
           | Inr major \<Rightarrow>
          (case parseNumber ''minor'' ''Minor'' p1 of
             Inl e \<Rightarrow> Inl e
           | Inr minor \<Rightarrow>
          (let (patchStr1, build) =
                 (case cut (CHR ''+'') p2 of
                    None \<Rightarrow> (p2, [])
                  | Some (a, b) \<Rightarrow> (a, strings_Split b (CHR ''.'')));
               (patchStr, prerelease) =
                 (case cut (CHR ''-'') patchStr1 of
                    None \<Rightarrow> (patchStr1, [])
                  | Some (a, b) \<Rightarrow> (a, strings_Split b (CHR ''.'')))
           in (case parseNumber ''patch'' ''Patch'' patchStr of
                 Inl e \<Rightarrow> Inl e
               | Inr patch \<Rightarrow>
              (case parsePre prerelease of
                 Inl e \<Rightarrow> Inl e
               | Inr pre \<Rightarrow>
              (case parseBuild build of
                 Inl e \<Rightarrow> Inl e
               | Inr bld \<Rightarrow>
                 Inr \<lparr>Major = major, Minor = minor, Patch = patch,
                      Pre = pre, Build = bld\<rparr>))))))
      | _ \<Rightarrow> Inl (New ''No Major.Minor.Patch elements found'')))"

text \<open>\<open>PRVersion.String\<close> and \<open>Version.String\<close>.\<close>

definition PRVersion_String :: "PRVersion \<Rightarrow> string" where
  "PRVersion_String v = (if IsNum v then decimal (unat (VersionNum v)) else VersionStr v)"

definition Version_String :: "Version \<Rightarrow> string" where
  "Version_String v =
     decimal (unat (Major v)) @ ''.'' @ decimal (unat (Minor v)) @ ''.'' @
     decimal (unat (Patch v)) @
     (if length (Pre v) > 0
      then ''-'' @ strings_Join (map PRVersion_String (Pre v)) ''.'' else []) @
     (if length (Build v) > 0
      then ''+'' @ strings_Join (Build v) ''.'' else [])"

text \<open>Go's \<open>>\<close> on strings: bytewise lexicographic order.\<close>

fun string_greater :: "string \<Rightarrow> string \<Rightarrow> bool" where
  "string_greater [] ys = False"
| "string_greater (x # xs) [] = True"
| "string_greater (x # xs) (y # ys) =
     ((of_char x :: nat) > of_char y \<or> (x = y \<and> string_greater xs ys))"

definition PRVersion_Compare :: "PRVersion \<Rightarrow> PRVersion \<Rightarrow> int" where
  "PRVersion_Compare v o' =
     (if IsNum v \<and> \<not> IsNum o' then - 1
      else if \<not> IsNum v \<and> IsNum o' then 1
      else if IsNum v \<and> IsNum o' then
        (if VersionNum v = VersionNum o' then 0
         else if VersionNum v > VersionNum o' then 1
         else - 1)
      else
        (if VersionStr v = VersionStr o' then 0
         else if string_greater (VersionStr v) (VersionStr o') then 1
         else - 1))"

text \<open>
  The loop of \<open>Version.Compare\<close> over the two pre-release lists, with the test after
  it: the first differing pair decides, then the longer list is the greater.
\<close>

fun comparePre :: "PRVersion list \<Rightarrow> PRVersion list \<Rightarrow> int" where
  "comparePre [] [] = 0"
| "comparePre [] (y # ys) = - 1"
| "comparePre (x # xs) [] = 1"
| "comparePre (x # xs) (y # ys) =
     (let c = PRVersion_Compare x y
      in if c = 0 then comparePre xs ys
         else if c = 1 then 1
         else - 1)"

definition Version_Compare :: "Version \<Rightarrow> Version \<Rightarrow> int" where
  "Version_Compare v o' =
     (if Major v \<noteq> Major o' then (if Major v > Major o' then 1 else - 1)
      else if Minor v \<noteq> Minor o' then (if Minor v > Minor o' then 1 else - 1)
      else if Patch v \<noteq> Patch o' then (if Patch v > Patch o' then 1 else - 1)
      else if length (Pre v) = 0 \<and> length (Pre o') = 0 then 0
      else if length (Pre v) = 0 \<and> length (Pre o') > 0 then 1
      else if length (Pre v) > 0 \<and> length (Pre o') = 0 then - 1
      else comparePre (Pre v) (Pre o'))"

definition Version_Equals :: "Version \<Rightarrow> Version \<Rightarrow> bool" where
  "Version_Equals v o' = (Version_Compare v o' = 0)"

section \<open>The update package\<close>

subsection \<open>Data\<close>

text \<open>
  Of \<open>selfupdate.Release\<close> the package reads the version and the publication time,
  a pointer that may be nil.
\<close>

record Release =
  Version :: Version
  PublishedAt :: "Time option"

text \<open>One entry of the \<open>formulae\<close> list printed by \<open>brew outdated --json=v2\<close>.\<close>

record formula =
  Name :: string
  InstalledVersions :: "string list"
  CurrentVersion :: string
  Pinned :: bool
  PinnedVersion :: string

record HomebrewOutdated =
  Formulae :: "formula list"

text \<open>A \<open>selfupdate.Updater\<close> is known by the base URL it was configured with.\<close>

datatype Updater = Updater string

record Options =
  Current :: Version
  Found :: bool
  Latest :: "Release option"
  PackageManager :: string
  updater :: "Updater option"
  githubAPI :: string
  slug :: string

subsection \<open>The outside world\<close>

text \<open>
  Discovery talks to the GitHub API through the selfupdate library and to Homebrew
  through a subprocess. What they answer is a parameter of the model; that they were
  asked is recorded, in order, in a log of calls. \<open>json.Unmarshal\<close> into
  \<open>HomebrewOutdated\<close> is a function of the bytes and leaves no trace.
\<close>

record World =
  NewUpdater :: "string \<Rightarrow> error + Updater"
  DetectLatest :: "Updater \<Rightarrow> string \<Rightarrow> Release option \<times> bool \<times> error option"
  LookPath :: "string \<Rightarrow> error + string"
  Output :: "string \<Rightarrow> string list \<Rightarrow> error + string"
  Unmarshal :: "string \<Rightarrow> error + HomebrewOutdated"

datatype event =
    CallNewUpdater string
  | CallDetectLatest Updater string
  | CallLookPath string
  | CallOutput string "string list"

datatype panic = NilPointerDereference

subsection \<open>Operations\<close>

text \<open>
  \<open>ParseHomebrewVersion\<close>: underscores become hyphens, at most ten of them (the
  local \<open>withRevisionAsTag\<close>), and the result goes to the semver parser; a parse
  failure is reported with the raw input.
\<close>

definition withRevisionAsTag :: "string \<Rightarrow> string" where
  "withRevisionAsTag homebrewVesion =
     strings_Replace homebrewVesion (CHR ''_'') (CHR ''-'') 10"

definition ParseHomebrewVersion :: "string \<Rightarrow> error + Version" where
  "ParseHomebrewVersion homebrewVesion =
     (case semver_Parse (withRevisionAsTag homebrewVesion) of
        Inl err \<Rightarrow>
          Inl (Errorf ''failed to parse current version from %s: %s''
                 [Str homebrewVesion, Err err])
      | Inr version \<Rightarrow> Inr version)"

definition rateLimitMessage :: string where
  "rateLimitMessage =
     ''Failed to query the GitHub API for updates.\<newline>\<newline>'' @
     ''This is most likely due to GitHub rate-limiting on unauthenticated requests.\<newline>\<newline>'' @
     ''To have the circleci-cli make authenticated requests please:\<newline>\<newline>'' @
     ''  1. Generate a token at https://github.com/settings/tokens\<newline>'' @
     ''  2. Set the token by either adding it to your ~/.gitconfig or\<newline>'' @
     ''     setting the GITHUB_TOKEN environment variable.\<newline>\<newline>'' @
     ''Instructions for generating a token can be found at:\<newline>'' @
     ''https://help.github.com/articles/creating-a-personal-access-token-for-the-command-line/\<newline>\<newline>'' @
     ''We call the GitHub releases API to look for new releases.\<newline>'' @
     ''More information about that API can be found here: https://developer.github.com/v3/repos/releases/\<newline>\<newline>''"

text \<open>
  \<open>latestRelease\<close> stores what \<open>DetectLatest\<close> answered, release and flag, before
  it looks at the error. It calls a method of \<open>opts.updater\<close>, so a nil updater is
  a panic.
\<close>

definition latestRelease ::
  "World \<Rightarrow> Options \<Rightarrow> event list \<Rightarrow> panic + (Options \<times> error option \<times> event list)" where
  "latestRelease w opts calls =
     (case updater opts of
        None \<Rightarrow> Inl NilPointerDereference
      | Some up \<Rightarrow>
          (case DetectLatest w up (slug opts) of
             (latest, found, err) \<Rightarrow>
               (let opts' = opts\<lparr>Latest := latest, Found := found\<rparr>;
                    calls' = calls @ [CallDetectLatest up (slug opts)]
                in case err of
                     Some e \<Rightarrow> Inr (opts', Some (Wrap e rateLimitMessage), calls')
                   | None \<Rightarrow> Inr (opts', None, calls'))))"

definition checkFromSource ::
  "World \<Rightarrow> Options \<Rightarrow> event list \<Rightarrow> panic + (Options \<times> error option \<times> event list)" where
  "checkFromSource w check calls =
     (case NewUpdater w (githubAPI check) of
        Inl err \<Rightarrow> Inr (check, Some err, calls @ [CallNewUpdater (githubAPI check)])
      | Inr up \<Rightarrow>
          latestRelease w (check\<lparr>updater := Some up\<rparr>)
            (calls @ [CallNewUpdater (githubAPI check)]))"

text \<open>
  The loop of \<open>checkFromHomebrew\<close> over the formulae. It does not stop at the first
  entry named \<open>circleci\<close>; a parse failure returns at once, with the fields written so
  far left as they are.
\<close>

fun checkFromHomebrew_loop :: "formula list \<Rightarrow> Options \<Rightarrow> Options \<times> error option" where
  "checkFromHomebrew_loop [] check = (check, None)"
| "checkFromHomebrew_loop (f # fs) check =
     (if Name f = ''circleci'' then
        (case (if length (InstalledVersions f) > 0
               then (case ParseHomebrewVersion (InstalledVersions f ! 0) of
                       Inl err \<Rightarrow> Inl err
                     | Inr current \<Rightarrow> Inr (check\<lparr>Current := current\<rparr>))
               else Inr check) of
           Inl err \<Rightarrow> (check, Some err)
         | Inr check1 \<Rightarrow>
             (case ParseHomebrewVersion (CurrentVersion f) of
                Inl err \<Rightarrow> (check1, Some err)
              | Inr latest \<Rightarrow>
                  checkFromHomebrew_loop fs
                    (check1\<lparr>Latest := Some \<lparr>Version = latest, PublishedAt = None\<rparr>,
                            Found := True\<rparr>)))
      else checkFromHomebrew_loop fs check)"

definition checkFromHomebrew ::
  "World \<Rightarrow> Options \<Rightarrow> event list \<Rightarrow> Options \<times> error option \<times> event list" where
  "checkFromHomebrew w check calls =
     (let calls1 = calls @ [CallLookPath ''brew'']
      in case LookPath w ''brew'' of
           Inl err \<Rightarrow>
             (check,
              Some (Wrap err (''Expected to find `brew` in your $PATH but wasn'' @ [CHR 0x27] @
                              ''t able to find it'')),
              calls1)
         | Inr brew \<Rightarrow>
             (let calls2 = calls1 @ [CallOutput brew [''outdated'', ''--json=v2'']]
              in case Output w brew [''outdated'', ''--json=v2''] of
                   Inl err \<Rightarrow>
                     (check,
                      Some (Wrap err
                        ''failed to check for updates. `brew outdated --json=v2` returned an error''),
                      calls2)
                 | Inr out \<Rightarrow>
                     (case Unmarshal w out of
                        Inl err \<Rightarrow>
                          (check,
                           Some (Wrap err ''failed to parse output of `brew outdated --json=v2`''),
                           calls2)
                      | Inr outdated \<Rightarrow>
                          (case checkFromHomebrew_loop (Formulae outdated) check of
                             (check', err) \<Rightarrow> (check', err, calls2)))))"

text \<open>
  \<open>CheckForUpdates\<close> returns a pointer and an error: the pointer is nil only when the
  current version does not parse; after that the result is returned whatever discovery
  said. A channel other than the three named ones runs no discovery.
\<close>

definition CheckForUpdates ::
  "World \<Rightarrow> string \<Rightarrow> string \<Rightarrow> string \<Rightarrow> string \<Rightarrow> event list \<Rightarrow>
     panic + (Options option \<times> error option \<times> event list)" where
  "CheckForUpdates w githubAPI' slug' current packageManager calls =
     (case semver_Parse current of
        Inl err \<Rightarrow> Inr (None, Some (Wrap err ''Failed to parse current version''), calls)
      | Inr currentVersion \<Rightarrow>
          (let check = \<lparr>Current = currentVersion, Found = False, Latest = None,
                        PackageManager = packageManager, updater = None,
                        githubAPI = githubAPI', slug = slug'\<rparr>
           in if PackageManager check = ''release'' then
                (case checkFromSource w check calls of
                   Inl p \<Rightarrow> Inl p
                 | Inr (check', err, calls') \<Rightarrow> Inr (Some check', err, calls'))
              else if PackageManager check = ''source'' then
                (case checkFromSource w check calls of
                   Inl p \<Rightarrow> Inl p
                 | Inr (check', err, calls') \<Rightarrow> Inr (Some check', err, calls'))
              else if PackageManager check = ''homebrew'' then
                (case checkFromHomebrew w check calls of
                   (check', err, calls') \<Rightarrow> Inr (Some check', err, calls'))
              else Inr (Some check, None, calls)))"

text \<open>
  \<open>settings.UpdateCheck\<close> carries the time of the last check.
  \<open>ShouldCheckForUpdates\<close> compares the hours elapsed since then, a \<open>float64\<close>,
  with \<open>hoursBeforeCheck\<close>, a package variable whose value is 28.
\<close>

record UpdateCheck =
  LastUpdateCheck :: Time

definition hoursBeforeCheck :: int where
  "hoursBeforeCheck = 28"

definition ShouldCheckForUpdates :: "Time \<Rightarrow> UpdateCheck \<Rightarrow> bool" where
  "ShouldCheckForUpdates now upd =
     (let diff = time_Since now (LastUpdateCheck upd)
      in Duration_Hours diff \<ge> f64 (of_int hoursBeforeCheck))"

definition IsLatestVersion :: "Options \<Rightarrow> bool" where
  "IsLatestVersion opts =
     (if Version_String (Current opts) = [] \<or> Latest opts = None then True
      else Version_Equals (Version (the (Latest opts))) (Current opts))"

text \<open>
  \<open>DebugVersion\<close> and \<open>ReportVersion\<close> read \<open>opts.Latest.Version\<close> with no nil
  test. \<open>fmt\<close> prints a nil \<open>*time.Time\<close> as \<open><nil>\<close>; how a time is printed
  otherwise is the parameter \<open>Time_String\<close>.
\<close>

definition DebugVersion :: "(Time \<Rightarrow> string) \<Rightarrow> Options \<Rightarrow> panic + string" where
  "DebugVersion Time_String opts =
     (case Latest opts of
        None \<Rightarrow> Inl NilPointerDereference
      | Some latest \<Rightarrow>
          Inr (strings_Join
                 [''Latest version: '' @ Version_String (Version latest),
                  ''Published: '' @
                    (case PublishedAt latest of
                       None \<Rightarrow> ''<nil>''
                     | Some t \<Rightarrow> Time_String t),
                  ''Current Version: '' @ Version_String (Current opts)]
                 ''\<newline>''))"

definition ReportVersion :: "Options \<Rightarrow> panic + string" where
  "ReportVersion opts =
     (case Latest opts of
        None \<Rightarrow> Inl NilPointerDereference
      | Some latest \<Rightarrow>
          Inr (strings_Join
                 [''You are running '' @ Version_String (Current opts),
                  ''A new release is available ('' @ Version_String (Version latest) @ '')'']
                 ''\<newline>''))"

subsection \<open>A sample world\<close>

text \<open>
  The document of the comment above \<open>HomebrewOutdated\<close>, and a world in which
  \<open>brew\<close> is installed and its output decodes to a given document.
\<close>

definition exampleOutdated :: HomebrewOutdated where
  "exampleOutdated =
     \<lparr>Formulae =
        [\<lparr>Name = ''circleci'', InstalledVersions = [''0.1.1248''],
          CurrentVersion = ''0.1.3923'', Pinned = False, PinnedVersion = []\<rparr>]\<rparr>"

definition exampleWorld :: "HomebrewOutdated \<Rightarrow> World" where
  "exampleWorld doc =
     \<lparr>NewUpdater = (\<lambda>api. Inr (Updater api)),
      DetectLatest = (\<lambda>up slg. (None, False, None)),
      LookPath = (\<lambda>file. Inr (''/usr/local/bin/'' @ file)),
      Output = (\<lambda>name args. Inr ''{}''),
      Unmarshal = (\<lambda>out. Inr doc)\<rparr>"

section \<open>Evaluation and helper lemmas\<close>

lemma strings_Replace_numeral:
  "strings_Replace (c # cs) old new (numeral k) =
     (if c = old then new # strings_Replace cs old new (pred_numeral k)
      else c # strings_Replace cs old new (numeral k))"
  by (simp add: numeral_eq_Suc)

lemma strings_SplitN_3:
  "strings_SplitN s sep 3 =
     (case cut sep s of
        None \<Rightarrow> [s]
      | Some (a, b) \<Rightarrow>
          (case cut sep b of None \<Rightarrow> [a, b] | Some (c, d) \<Rightarrow> [a, c, d]))"
  by (simp add: numeral_3_eq_3 split: option.splits)

lemmas semver_eval =
  semver_Parse_def parseNumber_def containsOnly_def numbers_def alphas_def alphanum_def
  hasLeadingZeroes_def strconv_ParseUint_def digit_val_def NewPRVersion_def
  strings_SplitN_3 strings_Replace_numeral withRevisionAsTag_def ParseHomebrewVersion_def

lemma length_strings_Replace: "length (strings_Replace s old new n) = length s"
  by (induction s old new n rule: strings_Replace.induct) auto

lemma strings_Replace_nth:
  "i < length s \<Longrightarrow>
   strings_Replace s old new n ! i =
     (if s ! i = old \<and> count_list (take i s) old < n then new else s ! i)"
proof (induction s old new n arbitrary: i rule: strings_Replace.induct)
  case (1 old new n)
  then show ?case by simp
next
  case (2 c cs old new)
  then show ?case by simp
next
  case (3 c cs old new n)
  show ?case
  proof (cases i)
    case 0
    then show ?thesis by simp
  next
    case (Suc j)
    with 3 show ?thesis by auto
  qed
qed

lemma decimal_not_Nil: "decimal n \<noteq> []"
  by (subst decimal.simps) simp

lemma Version_String_not_Nil: "Version_String v \<noteq> []"
  by (simp add: Version_String_def decimal_not_Nil)

lemma decimal_digit: "n < 10 \<Longrightarrow> decimal n = [digit_chr n]"
  by (subst decimal.simps) simp

lemma decimal_step: "\<not> n < 10 \<Longrightarrow> decimal n = decimal (n div 10) @ [digit_chr (n mod 10)]"
  by (subst decimal.simps) simp

lemmas string_eval = Version_String_def PRVersion_String_def decimal_digit decimal_step digit_chr_def

lemma PRVersion_Compare_sym0:
  "PRVersion_Compare x y = 0 \<longleftrightarrow> PRVersion_Compare y x = 0"
  by (auto simp: PRVersion_Compare_def split: if_splits)

lemma comparePre_sym0: "comparePre xs ys = 0 \<longleftrightarrow> comparePre ys xs = 0"
proof (induction xs ys rule: comparePre.induct)
  case (4 x xs y ys)
  then show ?case
    using PRVersion_Compare_sym0 [of x y] by (auto simp: Let_def)
qed simp_all

lemma Version_Compare_sym0: "Version_Compare v w = 0 \<longleftrightarrow> Version_Compare w v = 0"
  using comparePre_sym0 [of "Pre v" "Pre w"]
  by (auto simp: Version_Compare_def split: if_splits)

text \<open>
  C1 (amended). \<open>ParseHomebrewVersion\<close> parses the string \<open>withRevisionAsTag\<close>,
  which has the length of the raw string and differs from it exactly at the first ten
  underscores, each a hyphen there: an underscore with ten or more underscores before
  it, and every other character, is copied.
\<close>

theorem ParseHomebrewVersion_rewrites_first_ten:
  "ParseHomebrewVersion s =
     (case semver_Parse (withRevisionAsTag s) of
        Inl err \<Rightarrow> Inl (Errorf ''failed to parse current version from %s: %s'' [Str s, Err err])
      | Inr version \<Rightarrow> Inr version) \<and>
   length (withRevisionAsTag s) = length s \<and>
   (\<forall>i<length s.
      withRevisionAsTag s ! i =
        (if s ! i = CHR ''_'' \<and> count_list (take i s) (CHR ''_'') < 10
         then CHR ''-'' else s ! i))"
  by (simp add: ParseHomebrewVersion_def withRevisionAsTag_def length_strings_Replace
      strings_Replace_nth)

theorem ParseHomebrewVersion_rewrites_first_ten_witness:
  "(7::nat) < length ''1.2.3_4_5'' \<and> withRevisionAsTag ''1.2.3_4_5'' ! 7 = CHR ''-'' \<and>
   (23::nat) < length ''1.2.3_a_b_c_d_e_f_g_h_i_j'' \<and>
   withRevisionAsTag ''1.2.3_a_b_c_d_e_f_g_h_i_j'' ! 23 = CHR ''-'' \<and>
   (25::nat) < length ''1.2.3_a_b_c_d_e_f_g_h_i_j_k'' \<and>
   withRevisionAsTag ''1.2.3_a_b_c_d_e_f_g_h_i_j_k'' ! 25 = CHR ''_''"
  using ParseHomebrewVersion_rewrites_first_ten [of "''1.2.3_4_5''"]
    ParseHomebrewVersion_rewrites_first_ten [of "''1.2.3_a_b_c_d_e_f_g_h_i_j''"]
    ParseHomebrewVersion_rewrites_first_ten [of "''1.2.3_a_b_c_d_e_f_g_h_i_j_k''"]
  by (simp add: semver_eval)

theorem ParseHomebrewVersion_second_underscore_counterexample:
  "withRevisionAsTag ''1.2.3_4_5'' = ''1.2.3-4-5'' \<and>
   ParseHomebrewVersion ''1.2.3_4_5'' =
     Inr \<lparr>Major = 1, Minor = 2, Patch = 3,
          Pre = [\<lparr>VersionStr = ''4-5'', VersionNum = 0, IsNum = False\<rparr>], Build = []\<rparr> \<and>
   semver_Parse ''1.2.3-4_5'' =
     Inl (Errorf ''Invalid character(s) found in prerelease %q'' [Str ''4_5''])"
  by (simp add: semver_eval)

text \<open>
  C2. A result whose current version is the unset version \<open>semver.Version{}\<close> and
  whose latest release is 1.0.0: the unset version prints as \<open>0.0.0\<close>, not as the
  empty string, so the test for an empty current version does not fire and
  \<open>IsLatestVersion\<close> returns false.
\<close>

theorem IsLatestVersion_unset_current:
  "Version_String Version_zero = ''0.0.0'' \<and>
   IsLatestVersion
     \<lparr>Current = Version_zero, Found = True,
      Latest = Some \<lparr>Version = \<lparr>Major = 1, Minor = 0, Patch = 0, Pre = [], Build = []\<rparr>,
                     PublishedAt = None\<rparr>,
      PackageManager = ''release'', updater = None, githubAPI = [], slug = []\<rparr> = False"
  by (simp add: IsLatestVersion_def Version_zero_def string_eval Version_Equals_def
      Version_Compare_def)

text \<open>
  C4. With a current version that does not print as the empty string and a latest
  release present, \<open>IsLatestVersion\<close> is true exactly when the latest version equals
  the current one under \<open>Version.Equals\<close>; whenever the comparison of the two, taken
  in either order, is not 0 (one is strictly ahead of the other), it is false.
\<close>

theorem IsLatestVersion_iff_equal:
  "Version_String (Current opts) \<noteq> [] \<Longrightarrow> Latest opts = Some latest \<Longrightarrow>
   (IsLatestVersion opts \<longleftrightarrow> Version_Equals (Version latest) (Current opts)) \<and>
   (Version_Compare (Version latest) (Current opts) \<noteq> 0 \<longrightarrow> \<not> IsLatestVersion opts) \<and>
   (Version_Compare (Current opts) (Version latest) \<noteq> 0 \<longrightarrow> \<not> IsLatestVersion opts)"
  using Version_Compare_sym0 [of "Version latest" "Current opts"]
  by (simp add: IsLatestVersion_def Version_Equals_def)


theorem IsLatestVersion_iff_equal_witness:
  "IsLatestVersion
     \<lparr>Current = \<lparr>Major = 0, Minor = 1, Patch = 3923, Pre = [], Build = [''abc'']\<rparr>,
      Found = True,
      Latest = Some \<lparr>Version = \<lparr>Major = 0, Minor = 1, Patch = 3923, Pre = [], Build = []\<rparr>,
                     PublishedAt = None\<rparr>,
      PackageManager = ''release'', updater = None, githubAPI = [], slug = []\<rparr> \<and>
   \<not> IsLatestVersion
     \<lparr>Current = \<lparr>Major = 0, Minor = 2, Patch = 0, Pre = [], Build = []\<rparr>,
      Found = True,
      Latest = Some \<lparr>Version = \<lparr>Major = 0, Minor = 1, Patch = 3923, Pre = [], Build = []\<rparr>,
                     PublishedAt = None\<rparr>,
      PackageManager = ''release'', updater = None, githubAPI = [], slug = []\<rparr> \<and>
   \<not> IsLatestVersion
     \<lparr>Current = \<lparr>Major = 0, Minor = 1, Patch = 1248, Pre = [], Build = []\<rparr>,
      Found = True,
      Latest = Some \<lparr>Version = \<lparr>Major = 0, Minor = 1, Patch = 3923, Pre = [], Build = []\<rparr>,
                     PublishedAt = None\<rparr>,
      PackageManager = ''release'', updater = None, githubAPI = [], slug = []\<rparr>"
  using IsLatestVersion_iff_equal [of
      "\<lparr>Current = \<lparr>Major = 0, Minor = 1, Patch = 3923, Pre = [], Build = [''abc'']\<rparr>,
      Found = True,
      Latest = Some \<lparr>Version = \<lparr>Major = 0, Minor = 1, Patch = 3923, Pre = [], Build = []\<rparr>,
                     PublishedAt = None\<rparr>,
      PackageManager = ''release'', updater = None, githubAPI = [], slug = []\<rparr>"
      "\<lparr>Version = \<lparr>Major = 0, Minor = 1, Patch = 3923, Pre = [], Build = []\<rparr>,
                     PublishedAt = None\<rparr>"]
    IsLatestVersion_iff_equal [of
      "\<lparr>Current = \<lparr>Major = 0, Minor = 2, Patch = 0, Pre = [], Build = []\<rparr>,
      Found = True,
      Latest = Some \<lparr>Version = \<lparr>Major = 0, Minor = 1, Patch = 3923, Pre = [], Build = []\<rparr>,
                     PublishedAt = None\<rparr>,
      PackageManager = ''release'', updater = None, githubAPI = [], slug = []\<rparr>"
      "\<lparr>Version = \<lparr>Major = 0, Minor = 1, Patch = 3923, Pre = [], Build = []\<rparr>,
                     PublishedAt = None\<rparr>"]
    IsLatestVersion_iff_equal [of
      "\<lparr>Current = \<lparr>Major = 0, Minor = 1, Patch = 1248, Pre = [], Build = []\<rparr>,
      Found = True,
      Latest = Some \<lparr>Version = \<lparr>Major = 0, Minor = 1, Patch = 3923, Pre = [], Build = []\<rparr>,
                     PublishedAt = None\<rparr>,
      PackageManager = ''release'', updater = None, githubAPI = [], slug = []\<rparr>"
      "\<lparr>Version = \<lparr>Major = 0, Minor = 1, Patch = 3923, Pre = [], Build = []\<rparr>,
                     PublishedAt = None\<rparr>"]
  by (simp add: Version_String_not_Nil Version_Equals_def Version_Compare_def)

lemma checkFromHomebrew_decoded:
  "LookPath w ''brew'' = Inr brew \<Longrightarrow>
   Output w brew [''outdated'', ''--json=v2''] = Inr out \<Longrightarrow>
   Unmarshal w out = Inr doc \<Longrightarrow>
   checkFromHomebrew w check calls =
     (fst (checkFromHomebrew_loop (Formulae doc) check),
      snd (checkFromHomebrew_loop (Formulae doc) check),
      calls @ [CallLookPath ''brew'', CallOutput brew [''outdated'', ''--json=v2'']])"
  by (simp add: checkFromHomebrew_def Let_def split: prod.splits)

lemma parse_0_1_1248:
  "ParseHomebrewVersion ''0.1.1248'' =
     Inr \<lparr>Major = 0, Minor = 1, Patch = 1248, Pre = [], Build = []\<rparr>"
  by (simp add: semver_eval)

lemma parse_0_1_3923:
  "ParseHomebrewVersion ''0.1.3923'' =
     Inr \<lparr>Major = 0, Minor = 1, Patch = 3923, Pre = [], Build = []\<rparr>"
  by (simp add: semver_eval)

lemma loop_no_match:
  "\<forall>f\<in>set fs. Name f \<noteq> ''circleci'' \<Longrightarrow> checkFromHomebrew_loop fs check = (check, None)"
  by (induction fs arbitrary: check) auto

lemma loop_Current:
  "\<forall>f\<in>set fs. Name f = ''circleci'' \<longrightarrow> InstalledVersions f = [] \<Longrightarrow>
   Current (fst (checkFromHomebrew_loop fs check)) = Current check"
proof (induction fs arbitrary: check)
  case Nil
  then show ?case by simp
next
  case (Cons f fs)
  then show ?case
    by (auto split: sum.splits)
qed

lemma checkFromHomebrew_cases:
  "checkFromHomebrew w check calls = (check', err, calls') \<Longrightarrow>
   check' = check \<or>
   (\<exists>brew out doc. LookPath w ''brew'' = Inr brew \<and>
      Output w brew [''outdated'', ''--json=v2''] = Inr out \<and>
      Unmarshal w out = Inr doc \<and>
      check' = fst (checkFromHomebrew_loop (Formulae doc) check))"
  by (auto simp: checkFromHomebrew_def Let_def split: sum.splits prod.splits)

lemma checkFromSource_Current:
  "checkFromSource w check calls = Inr (check', err, calls') \<Longrightarrow> Current check' = Current check"
  by (auto simp: checkFromSource_def latestRelease_def Let_def
      split: sum.splits option.splits prod.splits)

text \<open>
  C6. When \<open>brew\<close> is found and runs, and its output decodes to a document
  whose only entry is named \<open>circleci\<close> with installed versions \<open>["0.1.1248"]\<close> and
  current version \<open>0.1.3923\<close>, discovery returns no error, sets \<open>Found\<close>, sets
  \<open>Current\<close> to 0.1.1248 and \<open>Latest\<close> to a release of version 0.1.3923.
\<close>

theorem checkFromHomebrew_one_entry:
  assumes "LookPath w ''brew'' = Inr brew"
    and "Output w brew [''outdated'', ''--json=v2''] = Inr out"
    and "Unmarshal w out = Inr doc"
    and "Formulae doc = [f]"
    and "Name f = ''circleci''"
    and "InstalledVersions f = [''0.1.1248'']"
    and "CurrentVersion f = ''0.1.3923''"
  shows "checkFromHomebrew w check calls =
     (check\<lparr>Current := \<lparr>Major = 0, Minor = 1, Patch = 1248, Pre = [], Build = []\<rparr>,
            Latest := Some \<lparr>Version = \<lparr>Major = 0, Minor = 1, Patch = 3923, Pre = [], Build = []\<rparr>,
                            PublishedAt = None\<rparr>,
            Found := True\<rparr>,
      None,
      calls @ [CallLookPath ''brew'', CallOutput brew [''outdated'', ''--json=v2'']])"
  using assms
  by (simp add: checkFromHomebrew_decoded parse_0_1_1248 parse_0_1_3923)

theorem checkFromHomebrew_one_entry_witness:
  "checkFromHomebrew (exampleWorld exampleOutdated)
     \<lparr>Current = \<lparr>Major = 0, Minor = 1, Patch = 0, Pre = [], Build = []\<rparr>, Found = False,
      Latest = None, PackageManager = ''homebrew'', updater = None,
      githubAPI = [], slug = ''CircleCI-Public/circleci-cli''\<rparr> [] =
     (\<lparr>Current = \<lparr>Major = 0, Minor = 1, Patch = 1248, Pre = [], Build = []\<rparr>, Found = True,
       Latest = Some \<lparr>Version = \<lparr>Major = 0, Minor = 1, Patch = 3923, Pre = [], Build = []\<rparr>,
                       PublishedAt = None\<rparr>,
       PackageManager = ''homebrew'', updater = None,
       githubAPI = [], slug = ''CircleCI-Public/circleci-cli''\<rparr>,
      None,
      [CallLookPath ''brew'', CallOutput ''/usr/local/bin/brew'' [''outdated'', ''--json=v2'']])"
  using checkFromHomebrew_one_entry [of "exampleWorld exampleOutdated" "''/usr/local/bin/brew''"
      "''{}''" exampleOutdated
      "\<lparr>Name = ''circleci'', InstalledVersions = [''0.1.1248''],
        CurrentVersion = ''0.1.3923'', Pinned = False, PinnedVersion = []\<rparr>"
      "\<lparr>Current = \<lparr>Major = 0, Minor = 1, Patch = 0, Pre = [], Build = []\<rparr>, Found = False,
      Latest = None, PackageManager = ''homebrew'', updater = None,
      githubAPI = [], slug = ''CircleCI-Public/circleci-cli''\<rparr>" "[]"]
  by (simp add: exampleWorld_def exampleOutdated_def)


lemma CheckForUpdates_parsed:
  "semver_Parse current = Inr v \<Longrightarrow>
   CheckForUpdates w api slg current pm calls =
     (let check = \<lparr>Current = v, Found = False, Latest = None, PackageManager = pm,
                    updater = None, githubAPI = api, slug = slg\<rparr>
      in if pm = ''release'' \<or> pm = ''source'' then
           (case checkFromSource w check calls of
              Inl p \<Rightarrow> Inl p
            | Inr (check', err, calls') \<Rightarrow> Inr (Some check', err, calls'))
         else if pm = ''homebrew'' then
           (case checkFromHomebrew w check calls of
              (check', err, calls') \<Rightarrow> Inr (Some check', err, calls'))
         else Inr (Some check, None, calls))"
  by (simp add: CheckForUpdates_def Let_def)

lemma CheckForUpdates_Current_unchanged:
  assumes "CheckForUpdates w api slg current pm calls = Inr (Some check, err, calls')"
    and "pm \<noteq> ''homebrew'' \<or>
         (\<forall>brew out doc.
            LookPath w ''brew'' = Inr brew \<and>
            Output w brew [''outdated'', ''--json=v2''] = Inr out \<and>
            Unmarshal w out = Inr doc \<longrightarrow>
            (\<forall>f\<in>set (Formulae doc). Name f = ''circleci'' \<longrightarrow> InstalledVersions f = []))"
  shows "semver_Parse current = Inr (Current check)"
proof (cases "semver_Parse current")
  case (Inl e)
  with assms(1) show ?thesis by (simp add: CheckForUpdates_def)
next
  case (Inr v)
  let ?c = "\<lparr>Current = v, Found = False, Latest = None, PackageManager = pm,
             updater = None, githubAPI = api, slug = slg\<rparr>"
  have "Current check = v"
  proof (cases "pm = ''homebrew''")
    case True
    with assms(1) Inr have h: "checkFromHomebrew w ?c calls = (check, err, calls')"
      by (simp add: CheckForUpdates_parsed split: prod.splits)
    from checkFromHomebrew_cases [OF h] show ?thesis
    proof
      assume "check = ?c"
      then show ?thesis by simp
    next
      assume "\<exists>brew out doc. LookPath w ''brew'' = Inr brew \<and>
        Output w brew [''outdated'', ''--json=v2''] = Inr out \<and>
        Unmarshal w out = Inr doc \<and>
        check = fst (checkFromHomebrew_loop (Formulae doc) ?c)"
      then obtain brew out doc where w: "LookPath w ''brew'' = Inr brew"
        "Output w brew [''outdated'', ''--json=v2''] = Inr out" "Unmarshal w out = Inr doc"
        and c: "check = fst (checkFromHomebrew_loop (Formulae doc) ?c)"
        by blast
      from assms(2) True w
      have "\<forall>f\<in>set (Formulae doc). Name f = ''circleci'' \<longrightarrow> InstalledVersions f = []"
        by blast
      from loop_Current [OF this, of ?c] c show ?thesis by simp
    qed
  next
    case False
    show ?thesis
    proof (cases "pm = ''release'' \<or> pm = ''source''")
      case True
      with assms(1) Inr obtain c' where "checkFromSource w ?c calls = Inr (c', err, calls')"
        and "c' = check"
        by (auto simp: CheckForUpdates_parsed split: sum.splits prod.splits)
      with checkFromSource_Current [of w ?c calls check err calls'] show ?thesis by simp
    next
      case other: False
      with False assms(1) Inr show ?thesis
        by (auto simp: CheckForUpdates_parsed)
    qed
  qed
  with Inr show ?thesis by simp
qed


lemma loop_Current_cases:
  "Current (fst (checkFromHomebrew_loop fs check)) = Current check \<or>
   (\<exists>f\<in>set fs. Name f = ''circleci'' \<and> InstalledVersions f \<noteq> [] \<and>
      ParseHomebrewVersion (InstalledVersions f ! 0) =
        Inr (Current (fst (checkFromHomebrew_loop fs check))))"
proof (induction fs arbitrary: check)
  case Nil
  then show ?case by simp
next
  case (Cons f fs)
  show ?case
  proof (cases "Name f = ''circleci''")
    case False
    with Cons [of check] show ?thesis by auto
  next
    case match: True
    show ?thesis
    proof (cases "InstalledVersions f = []")
      case True
      show ?thesis
      proof (cases "ParseHomebrewVersion (CurrentVersion f)")
        case (Inl e)
        with match True show ?thesis by simp
      next
        case (Inr latest)
        with match True
          Cons [of "check\<lparr>Latest := Some \<lparr>Version = latest, PublishedAt = None\<rparr>, Found := True\<rparr>"]
        show ?thesis by auto
      qed
    next
      case inst: False
      show ?thesis
      proof (cases "ParseHomebrewVersion (InstalledVersions f ! 0)")
        case (Inl e)
        with match inst show ?thesis by simp
      next
        case cur: (Inr current)
        show ?thesis
        proof (cases "ParseHomebrewVersion (CurrentVersion f)")
          case (Inl e)
          with match inst cur show ?thesis by simp
        next
          case (Inr latest)
          with match inst cur
            Cons [of "check\<lparr>Current := current,
                             Latest := Some \<lparr>Version = latest, PublishedAt = None\<rparr>,
                             Found := True\<rparr>"]
          show ?thesis by auto
        qed
      qed
    qed
  qed
qed

text \<open>
  C3 (amended). The result that \<open>CheckForUpdates\<close> returns has the parsed
  caller-supplied version as \<open>Current\<close> on every channel but \<open>homebrew\<close>, and on
  \<open>homebrew\<close> whenever the decoded document has no entry named \<open>circleci\<close> that
  reports an installed version. Whenever \<open>Current\<close> is another value, the channel
  is \<open>homebrew\<close> and that value is the parsed first installed version of an entry
  named \<open>circleci\<close> of the decoded document.
\<close>

theorem CheckForUpdates_Current_frame:
  assumes "CheckForUpdates w api slg current pm calls = Inr (Some check, err, calls')"
  shows "(pm \<noteq> ''homebrew'' \<or>
          (\<forall>brew out doc.
             LookPath w ''brew'' = Inr brew \<and>
             Output w brew [''outdated'', ''--json=v2''] = Inr out \<and>
             Unmarshal w out = Inr doc \<longrightarrow>
             (\<forall>f\<in>set (Formulae doc). Name f = ''circleci'' \<longrightarrow> InstalledVersions f = []))
          \<longrightarrow> semver_Parse current = Inr (Current check)) \<and>
         (semver_Parse current = Inr (Current check) \<or>
          pm = ''homebrew'' \<and>
          (\<exists>brew out doc f.
             LookPath w ''brew'' = Inr brew \<and>
             Output w brew [''outdated'', ''--json=v2''] = Inr out \<and>
             Unmarshal w out = Inr doc \<and>
             f \<in> set (Formulae doc) \<and> Name f = ''circleci'' \<and>
             InstalledVersions f \<noteq> [] \<and>
             ParseHomebrewVersion (InstalledVersions f ! 0) = Inr (Current check)))"
proof (intro conjI impI)
  assume "pm \<noteq> ''homebrew'' \<or>
          (\<forall>brew out doc.
             LookPath w ''brew'' = Inr brew \<and>
             Output w brew [''outdated'', ''--json=v2''] = Inr out \<and>
             Unmarshal w out = Inr doc \<longrightarrow>
             (\<forall>f\<in>set (Formulae doc). Name f = ''circleci'' \<longrightarrow> InstalledVersions f = []))"
  with assms show "semver_Parse current = Inr (Current check)"
    by (rule CheckForUpdates_Current_unchanged)
next
  show "semver_Parse current = Inr (Current check) \<or>
          pm = ''homebrew'' \<and>
          (\<exists>brew out doc f.
             LookPath w ''brew'' = Inr brew \<and>
             Output w brew [''outdated'', ''--json=v2''] = Inr out \<and>
             Unmarshal w out = Inr doc \<and>
             f \<in> set (Formulae doc) \<and> Name f = ''circleci'' \<and>
             InstalledVersions f \<noteq> [] \<and>
             ParseHomebrewVersion (InstalledVersions f ! 0) = Inr (Current check))"
  proof (cases "pm = ''homebrew''")
    case False
    with assms CheckForUpdates_Current_unchanged [of w api slg current pm calls check err calls']
    show ?thesis by simp
  next
    case True
    show ?thesis
    proof (cases "semver_Parse current")
      case (Inl e)
      with assms show ?thesis by (simp add: CheckForUpdates_def)
    next
      case (Inr v)
      let ?c = "\<lparr>Current = v, Found = False, Latest = None, PackageManager = pm,
                 updater = None, githubAPI = api, slug = slg\<rparr>"
      from assms Inr True have h: "checkFromHomebrew w ?c calls = (check, err, calls')"
        by (simp add: CheckForUpdates_parsed split: prod.splits)
      from checkFromHomebrew_cases [OF h] show ?thesis
      proof
        assume "check = ?c"
        with Inr show ?thesis by simp
      next
        assume "\<exists>brew out doc. LookPath w ''brew'' = Inr brew \<and>
          Output w brew [''outdated'', ''--json=v2''] = Inr out \<and>
          Unmarshal w out = Inr doc \<and>
          check = fst (checkFromHomebrew_loop (Formulae doc) ?c)"
        then obtain brew out doc where wd: "LookPath w ''brew'' = Inr brew"
          "Output w brew [''outdated'', ''--json=v2''] = Inr out" "Unmarshal w out = Inr doc"
          and c: "check = fst (checkFromHomebrew_loop (Formulae doc) ?c)"
          by blast
        from loop_Current_cases [of "Formulae doc" ?c] c
        have "Current check = v \<or>
          (\<exists>f\<in>set (Formulae doc). Name f = ''circleci'' \<and> InstalledVersions f \<noteq> [] \<and>
             ParseHomebrewVersion (InstalledVersions f ! 0) = Inr (Current check))"
          by simp
        then show ?thesis
        proof
          assume "Current check = v"
          with Inr show ?thesis by simp
        next
          assume "\<exists>f\<in>set (Formulae doc). Name f = ''circleci'' \<and> InstalledVersions f \<noteq> [] \<and>
             ParseHomebrewVersion (InstalledVersions f ! 0) = Inr (Current check)"
          with True wd show ?thesis by blast
        qed
      qed
    qed
  qed
qed

lemma parse_0_1_0:
  "semver_Parse ''0.1.0'' = Inr \<lparr>Major = 0, Minor = 1, Patch = 0, Pre = [], Build = []\<rparr>"
  by (simp add: semver_eval)

theorem CheckForUpdates_Current_frame_witness:
  "CheckForUpdates
     (exampleWorld \<lparr>Formulae = [\<lparr>Name = ''circleci'', InstalledVersions = [],
        CurrentVersion = ''0.1.3923'', Pinned = False, PinnedVersion = []\<rparr>]\<rparr>)
     [] ''CircleCI-Public/circleci-cli'' ''0.1.0'' ''homebrew'' [] =
   Inr (Some \<lparr>Current = \<lparr>Major = 0, Minor = 1, Patch = 0, Pre = [], Build = []\<rparr>,
              Found = True,
              Latest = Some \<lparr>Version = \<lparr>Major = 0, Minor = 1, Patch = 3923, Pre = [], Build = []\<rparr>,
                              PublishedAt = None\<rparr>,
              PackageManager = ''homebrew'', updater = None, githubAPI = [],
              slug = ''CircleCI-Public/circleci-cli''\<rparr>,
        None,
        [CallLookPath ''brew'', CallOutput ''/usr/local/bin/brew'' [''outdated'', ''--json=v2'']]) \<and>
   semver_Parse ''0.1.0'' =
     Inr (Current \<lparr>Current = \<lparr>Major = 0, Minor = 1, Patch = 0, Pre = [], Build = []\<rparr>,
              Found = True,
              Latest = Some \<lparr>Version = \<lparr>Major = 0, Minor = 1, Patch = 3923, Pre = [], Build = []\<rparr>,
                              PublishedAt = None\<rparr>,
              PackageManager = ''homebrew'', updater = None, githubAPI = [],
              slug = ''CircleCI-Public/circleci-cli''\<rparr>)"
proof -
  let ?w = "exampleWorld \<lparr>Formulae = [\<lparr>Name = ''circleci'', InstalledVersions = [],
        CurrentVersion = ''0.1.3923'', Pinned = False, PinnedVersion = []\<rparr>]\<rparr>"
  have run: "CheckForUpdates ?w [] ''CircleCI-Public/circleci-cli'' ''0.1.0'' ''homebrew'' [] =
   Inr (Some \<lparr>Current = \<lparr>Major = 0, Minor = 1, Patch = 0, Pre = [], Build = []\<rparr>,
              Found = True,
              Latest = Some \<lparr>Version = \<lparr>Major = 0, Minor = 1, Patch = 3923, Pre = [], Build = []\<rparr>,
                              PublishedAt = None\<rparr>,
              PackageManager = ''homebrew'', updater = None, githubAPI = [],
              slug = ''CircleCI-Public/circleci-cli''\<rparr>,
        None,
        [CallLookPath ''brew'', CallOutput ''/usr/local/bin/brew'' [''outdated'', ''--json=v2'']])"
    by (simp add: CheckForUpdates_parsed [OF parse_0_1_0] checkFromHomebrew_def exampleWorld_def
        parse_0_1_3923)
  have hyp: "''homebrew'' \<noteq> ''homebrew'' \<or>
         (\<forall>brew out doc.
            LookPath ?w ''brew'' = Inr brew \<and>
            Output ?w brew [''outdated'', ''--json=v2''] = Inr out \<and>
            Unmarshal ?w out = Inr doc \<longrightarrow>
            (\<forall>f\<in>set (Formulae doc). Name f = ''circleci'' \<longrightarrow> InstalledVersions f = []))"
    by (auto simp: exampleWorld_def)
  from run hyp CheckForUpdates_Current_frame [OF run] show ?thesis
    by simp
qed

theorem CheckForUpdates_Current_overwritten_counterexample:
  "CheckForUpdates (exampleWorld exampleOutdated)
     [] ''CircleCI-Public/circleci-cli'' ''0.1.0'' ''homebrew'' [] =
   Inr (Some \<lparr>Current = \<lparr>Major = 0, Minor = 1, Patch = 1248, Pre = [], Build = []\<rparr>,
              Found = True,
              Latest = Some \<lparr>Version = \<lparr>Major = 0, Minor = 1, Patch = 3923, Pre = [], Build = []\<rparr>,
                              PublishedAt = None\<rparr>,
              PackageManager = ''homebrew'', updater = None, githubAPI = [],
              slug = ''CircleCI-Public/circleci-cli''\<rparr>,
        None,
        [CallLookPath ''brew'', CallOutput ''/usr/local/bin/brew'' [''outdated'', ''--json=v2'']]) \<and>
   semver_Parse ''0.1.0'' = Inr \<lparr>Major = 0, Minor = 1, Patch = 0, Pre = [], Build = []\<rparr>"
  by (simp add: CheckForUpdates_parsed [OF parse_0_1_0] checkFromHomebrew_def exampleWorld_def
      exampleOutdated_def parse_0_1_3923 parse_0_1_1248 parse_0_1_0)

text \<open>
  C7. When \<open>brew\<close> is found and runs, and its output decodes to a document with
  no entry named \<open>circleci\<close>, \<open>checkFromHomebrew\<close> returns no error and the result
  record as it received it; through \<open>CheckForUpdates\<close> that is \<open>Found = False\<close>,
  no \<open>Latest\<close> and the parsed caller-supplied \<open>Current\<close>.
\<close>

theorem checkFromHomebrew_no_entry:
  assumes "LookPath w ''brew'' = Inr brew"
    and "Output w brew [''outdated'', ''--json=v2''] = Inr out"
    and "Unmarshal w out = Inr doc"
    and "\<forall>f\<in>set (Formulae doc). Name f \<noteq> ''circleci''"
    and "semver_Parse current = Inr v"
  shows "checkFromHomebrew w check calls =
           (check, None,
            calls @ [CallLookPath ''brew'', CallOutput brew [''outdated'', ''--json=v2'']]) \<and>
         CheckForUpdates w api slg current ''homebrew'' calls =
           Inr (Some \<lparr>Current = v, Found = False, Latest = None,
                      PackageManager = ''homebrew'', updater = None,
                      githubAPI = api, slug = slg\<rparr>,
                None,
                calls @ [CallLookPath ''brew'', CallOutput brew [''outdated'', ''--json=v2'']])"
proof -
  have h: "checkFromHomebrew w c calls =
           (c, None, calls @ [CallLookPath ''brew'', CallOutput brew [''outdated'', ''--json=v2'']])"
    for c
    using assms(1-4) by (simp add: checkFromHomebrew_decoded loop_no_match)
  show ?thesis
    using assms(5) by (simp add: h CheckForUpdates_parsed)
qed

theorem checkFromHomebrew_no_entry_witness:
  "checkFromHomebrew
     (exampleWorld \<lparr>Formulae = [\<lparr>Name = ''wget'', InstalledVersions = [''1.21.3''],
        CurrentVersion = ''1.21.4'', Pinned = False, PinnedVersion = []\<rparr>]\<rparr>)
     \<lparr>Current = \<lparr>Major = 0, Minor = 1, Patch = 0, Pre = [], Build = []\<rparr>, Found = False,
      Latest = None, PackageManager = ''homebrew'', updater = None,
      githubAPI = [], slug = []\<rparr> [] =
     (\<lparr>Current = \<lparr>Major = 0, Minor = 1, Patch = 0, Pre = [], Build = []\<rparr>, Found = False,
       Latest = None, PackageManager = ''homebrew'', updater = None,
       githubAPI = [], slug = []\<rparr>,
      None,
      [CallLookPath ''brew'', CallOutput ''/usr/local/bin/brew'' [''outdated'', ''--json=v2'']]) \<and>
   CheckForUpdates
     (exampleWorld \<lparr>Formulae = [\<lparr>Name = ''wget'', InstalledVersions = [''1.21.3''],
        CurrentVersion = ''1.21.4'', Pinned = False, PinnedVersion = []\<rparr>]\<rparr>)
     [] [] ''0.1.0'' ''homebrew'' [] =
     Inr (Some \<lparr>Current = \<lparr>Major = 0, Minor = 1, Patch = 0, Pre = [], Build = []\<rparr>,
                Found = False, Latest = None, PackageManager = ''homebrew'', updater = None,
                githubAPI = [], slug = []\<rparr>,
          None,
          [CallLookPath ''brew'', CallOutput ''/usr/local/bin/brew'' [''outdated'', ''--json=v2'']])"
  using checkFromHomebrew_no_entry [of
      "exampleWorld \<lparr>Formulae = [\<lparr>Name = ''wget'', InstalledVersions = [''1.21.3''],
        CurrentVersion = ''1.21.4'', Pinned = False, PinnedVersion = []\<rparr>]\<rparr>"
      "''/usr/local/bin/brew''" "''{}''"
      "\<lparr>Formulae = [\<lparr>Name = ''wget'', InstalledVersions = [''1.21.3''],
        CurrentVersion = ''1.21.4'', Pinned = False, PinnedVersion = []\<rparr>]\<rparr>"
      "''0.1.0''" "\<lparr>Major = 0, Minor = 1, Patch = 0, Pre = [], Build = []\<rparr>"
      "\<lparr>Current = \<lparr>Major = 0, Minor = 1, Patch = 0, Pre = [], Build = []\<rparr>, Found = False,
      Latest = None, PackageManager = ''homebrew'', updater = None,
      githubAPI = [], slug = []\<rparr>" "[]" "[]" "[]"]
  by (simp add: exampleWorld_def parse_0_1_0)

text \<open>
  C8. When the caller-supplied current version does not parse, \<open>CheckForUpdates\<close>
  returns a nil result and the parse error wrapped with
  \<open>Failed to parse current version\<close>; the log of calls is unchanged, so no discovery
  ran.
\<close>

theorem CheckForUpdates_invalid_current:
  "semver_Parse current = Inl e \<Longrightarrow>
   CheckForUpdates w api slg current pm calls =
     Inr (None, Some (Wrap e ''Failed to parse current version''), calls)"
  by (simp add: CheckForUpdates_def)

theorem CheckForUpdates_invalid_current_witness:
  "semver_Parse ''1.2'' = Inl (New ''No Major.Minor.Patch elements found'') \<and>
   CheckForUpdates (exampleWorld exampleOutdated) [] [] ''1.2'' ''homebrew'' [] =
     Inr (None,
          Some (Wrap (New ''No Major.Minor.Patch elements found'')
                  ''Failed to parse current version''),
          [])"
proof -
  have p: "semver_Parse ''1.2'' = Inl (New ''No Major.Minor.Patch elements found'')"
    by (simp add: semver_eval)
  from p CheckForUpdates_invalid_current [OF p] show ?thesis by simp
qed

text \<open>
  C9. With a current version that parses and a channel other than \<open>release\<close>,
  \<open>source\<close> and \<open>homebrew\<close>, \<open>CheckForUpdates\<close> returns a nil error and the
  fresh result (\<open>Found = False\<close>, no \<open>Latest\<close>); the log of calls is unchanged.
\<close>

theorem CheckForUpdates_unknown_channel:
  "semver_Parse current = Inr v \<Longrightarrow>
   pm \<notin> {''release'', ''source'', ''homebrew''} \<Longrightarrow>
   CheckForUpdates w api slg current pm calls =
     Inr (Some \<lparr>Current = v, Found = False, Latest = None, PackageManager = pm,
                updater = None, githubAPI = api, slug = slg\<rparr>,
          None, calls)"
  by (simp add: CheckForUpdates_parsed)

theorem CheckForUpdates_unknown_channel_witness:
  "''linux'' \<notin> {''release'', ''source'', ''homebrew''} \<and>
   CheckForUpdates (exampleWorld exampleOutdated) [] [] ''0.1.0'' ''linux'' [] =
     Inr (Some \<lparr>Current = \<lparr>Major = 0, Minor = 1, Patch = 0, Pre = [], Build = []\<rparr>,
                Found = False, Latest = None, PackageManager = ''linux'',
                updater = None, githubAPI = [], slug = []\<rparr>,
          None, [])"
proof -
  have m: "''linux'' \<notin> {''release'', ''source'', ''homebrew''}" by simp
  from m CheckForUpdates_unknown_channel [OF parse_0_1_0 m] show ?thesis by simp
qed

text \<open>
  C10. \<open>DebugVersion\<close> and \<open>ReportVersion\<close> panic with a nil dereference when the
  result has no latest release; when a release was found and is present they return
  their formatted lines.
\<close>

theorem DebugVersion_ReportVersion_safe:
  "(Latest opts = None \<longrightarrow>
      DebugVersion Time_String opts = Inl NilPointerDereference \<and>
      ReportVersion opts = Inl NilPointerDereference) \<and>
   (\<forall>latest. Found opts \<and> Latest opts = Some latest \<longrightarrow>
      DebugVersion Time_String opts =
        Inr (''Latest version: '' @ Version_String (Version latest) @ ''\<newline>'' @
             ''Published: '' @
               (case PublishedAt latest of None \<Rightarrow> ''<nil>'' | Some t \<Rightarrow> Time_String t) @
             ''\<newline>'' @
             ''Current Version: '' @ Version_String (Current opts)) \<and>
      ReportVersion opts =
        Inr (''You are running '' @ Version_String (Current opts) @ ''\<newline>'' @
             ''A new release is available ('' @ Version_String (Version latest) @ '')''))"
  by (simp add: DebugVersion_def ReportVersion_def)

theorem DebugVersion_ReportVersion_safe_witness:
  "DebugVersion (\<lambda>t. ''2021-03-01 00:00:00 +0000 UTC'')
     \<lparr>Current = Version_zero, Found = False, Latest = None, PackageManager = ''release'',
      updater = None, githubAPI = [], slug = []\<rparr> = Inl NilPointerDereference \<and>
   ReportVersion
     \<lparr>Current = Version_zero, Found = False, Latest = None, PackageManager = ''release'',
      updater = None, githubAPI = [], slug = []\<rparr> = Inl NilPointerDereference \<and>
   DebugVersion (\<lambda>t. ''2021-03-01 00:00:00 +0000 UTC'')
     \<lparr>Current = \<lparr>Major = 0, Minor = 1, Patch = 1248, Pre = [], Build = []\<rparr>, Found = True,
      Latest = Some \<lparr>Version = \<lparr>Major = 0, Minor = 1, Patch = 3923, Pre = [], Build = []\<rparr>,
                     PublishedAt = None\<rparr>,
      PackageManager = ''homebrew'', updater = None, githubAPI = [], slug = []\<rparr> =
     Inr (''Latest version: 0.1.3923\<newline>Published: <nil>\<newline>Current Version: 0.1.1248'') \<and>
   ReportVersion
     \<lparr>Current = \<lparr>Major = 0, Minor = 1, Patch = 1248, Pre = [], Build = []\<rparr>, Found = True,
      Latest = Some \<lparr>Version = \<lparr>Major = 0, Minor = 1, Patch = 3923, Pre = [], Build = []\<rparr>,
                     PublishedAt = None\<rparr>,
      PackageManager = ''homebrew'', updater = None, githubAPI = [], slug = []\<rparr> =
     Inr (''You are running 0.1.1248\<newline>A new release is available (0.1.3923)'')"
  using DebugVersion_ReportVersion_safe [of
      "\<lparr>Current = Version_zero, Found = False, Latest = None, PackageManager = ''release'',
      updater = None, githubAPI = [], slug = []\<rparr>" "\<lambda>t. ''2021-03-01 00:00:00 +0000 UTC''"]
    DebugVersion_ReportVersion_safe [of
      "\<lparr>Current = \<lparr>Major = 0, Minor = 1, Patch = 1248, Pre = [], Build = []\<rparr>, Found = True,
      Latest = Some \<lparr>Version = \<lparr>Major = 0, Minor = 1, Patch = 3923, Pre = [], Build = []\<rparr>,
                     PublishedAt = None\<rparr>,
      PackageManager = ''homebrew'', updater = None, githubAPI = [], slug = []\<rparr>"
      "\<lambda>t. ''2021-03-01 00:00:00 +0000 UTC''"]
  by (simp add: string_eval)

subsection \<open>Rounding and the scheduler\<close>

lemma rne_of_int: "rne (of_int n) = n"
  by (simp add: rne_def)

lemma rne_mono: "x \<le> y \<Longrightarrow> rne x \<le> rne y"
proof -
  assume xy: "x \<le> y"
  have fl: "\<lfloor>x\<rfloor> \<le> \<lfloor>y\<rfloor>" using xy by (rule floor_mono)
  have ux: "rne x \<le> \<lfloor>x\<rfloor> + 1" by (simp add: rne_def Let_def)
  have ly: "\<lfloor>y\<rfloor> \<le> rne y" by (simp add: rne_def Let_def)
  show ?thesis
  proof (cases "\<lfloor>x\<rfloor> < \<lfloor>y\<rfloor>")
    case True
    with ux ly show ?thesis by linarith
  next
    case False
    with fl have eq: "\<lfloor>x\<rfloor> = \<lfloor>y\<rfloor>" by simp
    with xy show ?thesis
      by (auto simp: rne_def Let_def)
  qed
qed

lemma ilog2_bounds:
  assumes "0 < x"
  shows "2 powi ilog2 x \<le> x \<and> x < 2 powi (ilog2 x + 1)"
proof -
  obtain a b where q: "quotient_of x = (a, b)" by (cases "quotient_of x")
  have b: "0 < b" using q by (rule quotient_of_denom_pos)
  have x: "x = of_int a / of_int b" using q by (rule quotient_of_div)
  have a: "0 < a" using assms b x by (simp add: zero_less_divide_iff)
  define la where "la = bitlen a"
  define lb where "lb = bitlen b"
  have la1: "1 \<le> la" using a bitlen_eq_zero_iff [of a] bitlen_nonneg [of a]
    unfolding la_def by linarith
  have lb1: "1 \<le> lb" using b bitlen_eq_zero_iff [of b] bitlen_nonneg [of b]
    unfolding lb_def by linarith
  have ba: "2 ^ nat (la - 1) \<le> a" "a < 2 ^ nat la"
    using bitlen_bounds [OF a] by (simp_all add: la_def)
  have bb: "2 ^ nat (lb - 1) \<le> b" "b < 2 ^ nat lb"
    using bitlen_bounds [OF b] by (simp_all add: lb_def)
  have ra: "(2::rat) powi (la - 1) \<le> of_int a" "(of_int a :: rat) < 2 powi la"
  proof -
    have "(of_int (2 ^ nat (la - 1)) :: rat) \<le> of_int a" using ba(1) by (simp only: of_int_le_iff)
    then show "(2::rat) powi (la - 1) \<le> of_int a" using la1 by (simp add: power_int_def)
    have "(of_int a :: rat) < of_int (2 ^ nat la)" using ba(2) by (simp only: of_int_less_iff)
    then show "(of_int a :: rat) < 2 powi la" using la1 by (simp add: power_int_def)
  qed
  have rb: "(2::rat) powi (lb - 1) \<le> of_int b" "(of_int b :: rat) < 2 powi lb"
  proof -
    have "(of_int (2 ^ nat (lb - 1)) :: rat) \<le> of_int b" using bb(1) by (simp only: of_int_le_iff)
    then show "(2::rat) powi (lb - 1) \<le> of_int b" using lb1 by (simp add: power_int_def)
    have "(of_int b :: rat) < of_int (2 ^ nat lb)" using bb(2) by (simp only: of_int_less_iff)
    then show "(of_int b :: rat) < 2 powi lb" using lb1 by (simp add: power_int_def)
  qed
  have bpos: "(0::rat) < of_int b" using b by simp
  have up: "x < 2 powi (la - lb + 1)"
  proof -
    have "of_int a * (2::rat) powi (lb - 1) < 2 powi la * of_int b"
      using ra(2) rb(1) a by (intro mult_less_le_imp_less) auto
    then have "of_int a < 2 powi la * of_int b / (2::rat) powi (lb - 1)"
      by (simp add: pos_less_divide_eq)
    then have "of_int a / of_int b < 2 powi la / (2::rat) powi (lb - 1)"
      using bpos by (simp add: pos_divide_less_eq mult.commute)
    also have "2 powi la / (2::rat) powi (lb - 1) = 2 powi (la - lb + 1)"
      by (simp add: power_int_diff [symmetric] algebra_simps)
    finally show ?thesis using x by simp
  qed
  have lo: "2 powi (la - lb - 1) \<le> x"
  proof -
    have "(2::rat) powi (la - 1) * of_int b \<le> of_int a * 2 powi lb"
      using ra(1) rb(2) bpos a by (intro mult_mono) auto
    then have "(2::rat) powi (la - 1) / 2 powi lb \<le> of_int a / of_int b"
      using bpos by (simp add: pos_le_divide_eq pos_divide_le_eq mult.commute)
    moreover have "(2::rat) powi (la - 1) / 2 powi lb = 2 powi (la - lb - 1)"
      by (simp add: power_int_diff [symmetric] algebra_simps)
    ultimately show ?thesis using x by simp
  qed
  show ?thesis
    using up lo q by (simp add: ilog2_def Let_def la_def lb_def)
qed


lemma pow2_less_imp: "(2::rat) powi m < 2 powi n \<Longrightarrow> m < n"
proof (rule ccontr)
  assume lt: "(2::rat) powi m < 2 powi n" and "\<not> m < n"
  then have "n \<le> m" by simp
  then have "(2::rat) powi n \<le> 2 powi m" by (intro power_int_increasing) auto
  with lt show False by simp
qed

lemma ilog2_unique:
  assumes "0 < x" "2 powi e \<le> x" "x < 2 powi (e + 1)"
  shows "ilog2 x = e"
proof -
  from ilog2_bounds [OF assms(1)]
  have b: "2 powi ilog2 x \<le> x" "x < 2 powi (ilog2 x + 1)" by simp_all
  have "(2::rat) powi e < 2 powi (ilog2 x + 1)" using assms(2) b(2) by simp
  then have 1: "e < ilog2 x + 1" by (rule pow2_less_imp)
  have "(2::rat) powi ilog2 x < 2 powi (e + 1)" using assms(3) b(1) by simp
  then have 2: "ilog2 x < e + 1" by (rule pow2_less_imp)
  from 1 2 show ?thesis by simp
qed

lemma ilog2_mono:
  assumes "0 < x" "x \<le> y"
  shows "ilog2 x \<le> ilog2 y"
proof -
  have y: "0 < y" using assms by simp
  have "(2::rat) powi ilog2 x < 2 powi (ilog2 y + 1)"
    using ilog2_bounds [OF assms(1)] ilog2_bounds [OF y] assms(2) by simp
  then have "ilog2 x < ilog2 y + 1"
    by (rule pow2_less_imp)
  then show ?thesis by simp
qed


lemma f64_pos: "0 < x \<Longrightarrow> f64 x = of_int (rne (x / 2 powi (ilog2 x - 52))) * 2 powi (ilog2 x - 52)"
  by (simp add: f64_def Let_def)

lemma f64_minus: "f64 (- x) = - f64 x"
  by (simp add: f64_def Let_def)

lemma f64_zero: "f64 0 = 0"
  by (simp add: f64_def)

lemma f64_range:
  assumes "0 < x"
  shows "2 powi ilog2 x \<le> f64 x \<and> f64 x \<le> 2 powi (ilog2 x + 1)"
proof -
  define e where "e = ilog2 x"
  define q :: rat where "q = 2 powi (e - 52)"
  have qpos: "0 < q" by (simp add: q_def)
  have b: "2 powi e \<le> x" "x < 2 powi (e + 1)"
    using ilog2_bounds [OF assms] by (simp_all add: e_def)
  have e1: "(2::rat) powi e = 2 ^ 52 * q"
    unfolding q_def by (simp add: power_int_diff)
  have e2: "(2::rat) powi (e + 1) = 2 ^ 53 * q"
    unfolding q_def by (simp add: power_int_diff power_int_add)
  have lo: "of_int (2 ^ 52) \<le> x / q"
    using b(1) qpos by (simp add: e1 pos_le_divide_eq)
  have hi: "x / q \<le> of_int (2 ^ 53)"
    using b(2) qpos by (simp add: e2 pos_divide_le_eq)
  have r1: "2 ^ 52 \<le> rne (x / q)"
    using rne_mono [OF lo] by (simp only: rne_of_int)
  have r2: "rne (x / q) \<le> 2 ^ 53"
    using rne_mono [OF hi] by (simp only: rne_of_int)
  have "(of_int (2 ^ 52) :: rat) \<le> of_int (rne (x / q))"
    using r1 by (simp only: of_int_le_iff)
  then have 1: "2 ^ 52 * q \<le> of_int (rne (x / q)) * q"
    using qpos by simp
  have "(of_int (rne (x / q)) :: rat) \<le> of_int (2 ^ 53)"
    using r2 by (simp only: of_int_le_iff)
  then have 2: "of_int (rne (x / q)) * q \<le> 2 ^ 53 * q"
    using qpos by simp
  have "f64 x = of_int (rne (x / q)) * q"
    using assms by (simp add: f64_pos q_def e_def)
  with 1 2 e1 e2 show ?thesis by (simp add: e_def)
qed

lemma f64_mono_pos:
  assumes "0 < x" "x \<le> y"
  shows "f64 x \<le> f64 y"
proof -
  have y: "0 < y" using assms by simp
  have le: "ilog2 x \<le> ilog2 y" using assms by (rule ilog2_mono)
  show ?thesis
  proof (cases "ilog2 x = ilog2 y")
    case True
    define q :: rat where "q = 2 powi (ilog2 y - 52)"
    have qpos: "0 < q" by (simp add: q_def)
    have "x / q \<le> y / q" using assms(2) qpos by (simp add: divide_right_mono)
    then have "rne (x / q) \<le> rne (y / q)" by (rule rne_mono)
    then have "(of_int (rne (x / q)) :: rat) \<le> of_int (rne (y / q))"
      by (simp only: of_int_le_iff)
    then have "of_int (rne (x / q)) * q \<le> of_int (rne (y / q)) * q"
      using qpos by simp
    then show ?thesis
      using assms(1) y True by (simp add: f64_pos q_def)
  next
    case False
    with le have "ilog2 x + 1 \<le> ilog2 y" by simp
    then have "(2::rat) powi (ilog2 x + 1) \<le> 2 powi ilog2 y"
      by (intro power_int_increasing) auto
    with f64_range [OF assms(1)] f64_range [OF y] show ?thesis by linarith
  qed
qed

lemma f64_pos_pos: "0 < x \<Longrightarrow> 0 < f64 x"
proof -
  assume x: "0 < x"
  have "(0::rat) < 2 powi ilog2 x" by simp
  with f64_range [OF x] show ?thesis by linarith
qed

lemma f64_mono: "x \<le> y \<Longrightarrow> f64 x \<le> f64 y"
proof -
  assume xy: "x \<le> y"
  consider "0 < x" | "x = 0" | "x < 0" "0 \<le> y" | "x < 0" "y < 0" by linarith
  then show ?thesis
  proof cases
    case 1
    then show ?thesis using xy by (rule f64_mono_pos)
  next
    case 2
    show ?thesis
    proof (cases "y = 0")
      case True
      with 2 show ?thesis by simp
    next
      case False
      with 2 xy have "0 < y" by simp
      from f64_pos_pos [OF this] 2 show ?thesis by (simp add: f64_zero)
    qed
  next
    case 3
    have "0 < f64 (- x)" using 3(1) by (intro f64_pos_pos) simp
    then have nx: "f64 x < 0" by (simp add: f64_minus)
    have "0 \<le> f64 y"
    proof (cases "y = 0")
      case True
      then show ?thesis by (simp add: f64_zero)
    next
      case False
      with 3(2) have "0 < y" by simp
      from f64_pos_pos [OF this] show ?thesis by simp
    qed
    with nx show ?thesis by simp
  next
    case 4
    have "f64 (- y) \<le> f64 (- x)" using 4 xy by (intro f64_mono_pos) simp_all
    then show ?thesis by (simp add: f64_minus)
  qed
qed

lemma f64_exact_pos:
  assumes "0 < m" "m < 2 ^ 53"
  shows "f64 (of_int m * 2 powi k) = of_int m * 2 powi k"
proof -
  define x :: rat where "x = of_int m * 2 powi k"
  have x: "0 < x" using assms(1) by (simp add: x_def)
  define e where "e = ilog2 x"
  have "2 powi e \<le> x" using ilog2_bounds [OF x] by (simp add: e_def)
  also have "x < of_int (2 ^ 53) * 2 powi k"
    unfolding x_def using assms(2) by (intro mult_strict_right_mono) (simp_all only: of_int_less_iff zero_less_power_int zero_less_numeral)
  also have "\<dots> = 2 powi (53 + k)" by (simp add: power_int_add)
  finally have "e < 53 + k" by (rule pow2_less_imp)
  then have n: "0 \<le> k - e + 52" by simp
  have "x / 2 powi (e - 52) = of_int m * 2 powi (k - e + 52)"
    unfolding x_def by (simp add: power_int_diff power_int_add power_int_minus field_simps)
  also have "\<dots> = of_int m * 2 ^ nat (k - e + 52)"
    using n by (simp add: power_int_def)
  also have "\<dots> = of_int (m * 2 ^ nat (k - e + 52))" by simp
  finally have "rne (x / 2 powi (e - 52)) = m * 2 ^ nat (k - e + 52)"
    by (simp only: rne_of_int)
  then have "f64 x = of_int (m * 2 ^ nat (k - e + 52)) * 2 powi (e - 52)"
    using x by (simp add: f64_pos e_def)
  also have "\<dots> = of_int m * (2 powi (k - e + 52) * 2 powi (e - 52))"
    using n by (simp add: power_int_def)
  also have "2 powi (k - e + 52) * (2::rat) powi (e - 52) = 2 powi k"
    by (simp add: power_int_add [symmetric])
  finally show ?thesis by (simp add: x_def)
qed

lemma f64_of_int:
  assumes "\<bar>m\<bar> < 2 ^ 53"
  shows "f64 (of_int m) = of_int m"
proof -
  consider "0 < m" | "m = 0" | "m < 0" by linarith
  then show ?thesis
  proof cases
    case 1
    with assms f64_exact_pos [of m 0] show ?thesis by simp
  next
    case 2
    then show ?thesis by (simp add: f64_zero)
  next
    case 3
    with assms f64_exact_pos [of "- m" 0] have "f64 (- of_int m) = - of_int m" by simp
    then show ?thesis by (simp add: f64_minus)
  qed
qed


lemma f64_28: "f64 28 = 28"
  using f64_of_int [of 28] by simp

lemma f64_Hour: "f64 3600000000000 = 3600000000000"
  using f64_of_int [of 3600000000000] by simp

lemma f64_below_1: "f64 (1 - 1 / 2 ^ 42) = 1 - 1 / 2 ^ 42"
proof -
  have "(of_int (2 ^ 42 - 1) :: rat) * 2 powi (- 42) = 1 - 1 / 2 ^ 42"
    by (simp add: power_int_minus field_simps)
  with f64_exact_pos [of "2 ^ 42 - 1" "- 42"] show ?thesis by simp
qed

lemma f64_below_28: "f64 (28 - 1 / 2 ^ 42) = 28 - 1 / 2 ^ 42"
proof -
  have "(of_int (28 * 2 ^ 42 - 1) :: rat) * 2 powi (- 42) = 28 - 1 / 2 ^ 42"
    by (simp add: power_int_minus field_simps)
  with f64_exact_pos [of "28 * 2 ^ 42 - 1" "- 42"] show ?thesis by simp
qed

lemma Duration_Hours_ge_28:
  assumes "minDuration \<le> d" "d \<le> maxDuration"
  shows "f64 28 \<le> Duration_Hours d \<longleftrightarrow> 28 * Hour \<le> d"
proof -
  define hour where "hour = d sdiv Hour"
  define nsec where "nsec = d smod Hour"
  define frac where "frac = f64 (of_int nsec / 3600000000000)"
  have nb: "\<bar>nsec\<bar> < 2 ^ 53"
    using smod_int_range [of Hour d] by (simp add: nsec_def Hour_def abs_less_iff)
  have fn: "f64 (of_int nsec) = of_int nsec" using nb by (rule f64_of_int)
  have H: "Duration_Hours d = f64 (f64 (of_int hour) + frac)"
    using fn by (simp add: Duration_Hours_def Let_def hour_def nsec_def frac_def f64_Hour)
  have hb: "\<bar>hour\<bar> < 2 ^ 53"
  proof -
    have "\<bar>hour\<bar> = \<bar>d\<bar> div Hour"
      by (simp add: hour_def signed_divide_int_def Hour_def abs_mult sgn_if)
    also have "\<dots> \<le> 2 ^ 63 div Hour"
      using assms by (intro zdiv_mono1) (simp_all add: minDuration_def maxDuration_def Hour_def)
    also have "\<dots> < 2 ^ 53" by (simp add: Hour_def)
    finally show ?thesis .
  qed
  have fh: "f64 (of_int hour) = of_int hour" using hb by (rule f64_of_int)
  show ?thesis
  proof (cases "28 * Hour \<le> d")
    case True
    then have d0: "0 \<le> d" by (simp add: Hour_def)
    have "hour = d div Hour"
      using d0 by (simp add: hour_def signed_divide_int_def Hour_def sgn_if)
    moreover have "28 \<le> d div Hour"
      using True by (simp add: Hour_def pos_imp_zdiv_pos_iff zdiv_mono1 [of "28 * 3600000000000" d 3600000000000, simplified])
    ultimately have h28: "28 \<le> hour" by simp
    have "0 \<le> nsec"
      using d0 by (simp add: nsec_def smod_int_compares Hour_def)
    then have "(0::rat) \<le> of_int nsec / 3600000000000" by simp
    then have "f64 0 \<le> frac" unfolding frac_def by (rule f64_mono)
    then have "0 \<le> frac" by (simp add: f64_zero)
    moreover have "(28::rat) \<le> of_int hour" using h28 by simp
    ultimately have "28 \<le> of_int hour + frac" by linarith
    then have "f64 28 \<le> f64 (of_int hour + frac)" by (rule f64_mono)
    with True show ?thesis by (simp add: H fh)
  next
    case False
    have "f64 (of_int hour + frac) \<le> 28 - 1 / 2 ^ 42"
    proof (cases "0 \<le> d")
      case True
      have hd: "hour = d div Hour"
        using True by (simp add: hour_def signed_divide_int_def Hour_def sgn_if)
      have "d div Hour < 28"
        using False by (simp add: Hour_def div_less_iff_less_mult)
      with hd have h27: "hour \<le> 27" by simp
      have "nsec < Hour"
        using True by (simp add: nsec_def smod_int_compares Hour_def)
      then have "nsec \<le> 3599999999999" by (simp add: Hour_def)
      then have "(of_int nsec :: rat) \<le> of_int 3599999999999" by (simp only: of_int_le_iff)
      then have "(of_int nsec :: rat) \<le> 3599999999999" by simp
      then have "(of_int nsec :: rat) / 3600000000000 \<le> 1 - 1 / 2 ^ 42"
        by (simp add: field_simps)
      then have "frac \<le> f64 (1 - 1 / 2 ^ 42)" unfolding frac_def by (rule f64_mono)
      then have "frac \<le> 1 - 1 / 2 ^ 42" by (simp only: f64_below_1)
      moreover have "(of_int hour :: rat) \<le> 27" using h27 by simp
      ultimately have "of_int hour + frac \<le> 28 - 1 / 2 ^ 42" by linarith
      then have "f64 (of_int hour + frac) \<le> f64 (28 - 1 / 2 ^ 42)" by (rule f64_mono)
      then show ?thesis by (simp only: f64_below_28)
    next
      case neg: False
      then have d0: "d \<le> 0" by simp
      have "hour = - (\<bar>d\<bar> div Hour)"
        using neg by (simp add: hour_def signed_divide_int_def Hour_def sgn_if)
      moreover have "0 \<le> \<bar>d\<bar> div Hour" by (simp add: Hour_def pos_imp_zdiv_nonneg_iff)
      ultimately have h0: "hour \<le> 0" by simp
      have "nsec \<le> 0"
        using d0 by (simp add: nsec_def smod_int_compares Hour_def)
      then have "(of_int nsec :: rat) / 3600000000000 \<le> 0" by (simp add: divide_le_0_iff)
      then have "frac \<le> f64 0" unfolding frac_def by (rule f64_mono)
      then have "frac \<le> 0" by (simp add: f64_zero)
      moreover have "(of_int hour :: rat) \<le> 0" using h0 by simp
      ultimately have "of_int hour + frac \<le> 0" by linarith
      then have "f64 (of_int hour + frac) \<le> f64 0" by (rule f64_mono)
      then have "f64 (of_int hour + frac) \<le> 0" by (simp add: f64_zero)
      then show ?thesis by simp
    qed
    then have "f64 (of_int hour + frac) < 28" by simp
    with False show ?thesis by (simp add: H fh f64_28)
  qed
qed

lemma time_Sub_ge_28:
  "28 * Hour \<le> time_Sub t u \<longleftrightarrow> 28 * Hour \<le> t - u"
  by (simp add: time_Sub_def Let_def minDuration_def maxDuration_def Hour_def)

lemma time_Sub_range: "minDuration \<le> time_Sub t u \<and> time_Sub t u \<le> maxDuration"
  by (simp add: time_Sub_def Let_def minDuration_def maxDuration_def)

text \<open>
  C5. With the threshold at its default of 28 hours, \<open>ShouldCheckForUpdates\<close> is
  true exactly when the time elapsed since the last check is at least 28 hours: true
  at exactly 28 hours and at 29 hours, false at 27 hours.
\<close>

theorem ShouldCheckForUpdates_iff:
  "(ShouldCheckForUpdates now upd \<longleftrightarrow> 28 * Hour \<le> now - LastUpdateCheck upd) \<and>
   ShouldCheckForUpdates now \<lparr>LastUpdateCheck = now - 28 * Hour\<rparr> \<and>
   \<not> ShouldCheckForUpdates now \<lparr>LastUpdateCheck = now - 27 * Hour\<rparr> \<and>
   ShouldCheckForUpdates now \<lparr>LastUpdateCheck = now - 29 * Hour\<rparr>"
proof -
  have main: "ShouldCheckForUpdates n u \<longleftrightarrow> 28 * Hour \<le> n - LastUpdateCheck u" for n u
    using Duration_Hours_ge_28 [of "time_Sub n (LastUpdateCheck u)"]
      time_Sub_range [of n "LastUpdateCheck u"]
    by (simp add: ShouldCheckForUpdates_def time_Since_def hoursBeforeCheck_def
        time_Sub_ge_28)
  show ?thesis
    by (simp add: main Hour_def)
qed

end
